theory Spec2Isabelle
  imports Complex_Main
begin

section \<open>Values of the host language\<close>

text \<open>
  The report generator is TypeScript; its helpers take cells typed \<open>any\<close>. A cell is
  modelled by the tagged union \<open>jsval\<close>. A \<open>number\<close> is a binary64 value seen
  through its exact mathematical value: the two infinities, the signed zero and the
  not-a-number are kept apart, finite values are rationals, and arithmetic on finite
  values is exact (the rounding and the overflow of binary64 are not modelled).
  A string is a list of characters; the character classes and the case mappings are
  those of ASCII, and a character outside ASCII is its UTF-8 bytes, which no class
  contains and no case mapping changes.
\<close>

datatype number = NaN | PosInf | NegInf | NegZero | Fin rat

datatype jsval =
    JUndefined
  | JNull
  | JBool bool
  | JNum number
  | JStr string
  | JBigInt int
  | JObject string  \<comment> \<open>any other object, given by the result of its own \<open>toString\<close>\<close>

subsection \<open>Arithmetic and tests on numbers\<close>

definition isNaN :: "number \<Rightarrow> bool" where
  "isNaN n = (n = NaN)"

definition isFinite :: "number \<Rightarrow> bool" where
  "isFinite n = (case n of Fin q \<Rightarrow> True | NegZero \<Rightarrow> True | _ \<Rightarrow> False)"

text \<open>\<open>n > 0\<close>\<close>

definition gtZero :: "number \<Rightarrow> bool" where
  "gtZero n = (case n of Fin q \<Rightarrow> 0 < q | PosInf \<Rightarrow> True | _ \<Rightarrow> False)"

text \<open>Unary minus.\<close>

definition numNeg :: "number \<Rightarrow> number" where
  "numNeg n = (case n of
       NaN \<Rightarrow> NaN
     | PosInf \<Rightarrow> NegInf
     | NegInf \<Rightarrow> PosInf
     | NegZero \<Rightarrow> Fin 0
     | Fin q \<Rightarrow> if q = 0 then NegZero else Fin (- q))"

text \<open>Truthiness of a number: the zeros and the not-a-number are falsy.\<close>

definition truthyNum :: "number \<Rightarrow> bool" where
  "truthyNum n = (n \<noteq> NaN \<and> n \<noteq> NegZero \<and> n \<noteq> Fin 0)"

text \<open>Addition: a sum is the negative zero only when both operands are.\<close>

fun numAdd :: "number \<Rightarrow> number \<Rightarrow> number" where
  "numAdd NaN _ = NaN"
| "numAdd _ NaN = NaN"
| "numAdd PosInf NegInf = NaN"
| "numAdd NegInf PosInf = NaN"
| "numAdd PosInf _ = PosInf"
| "numAdd _ PosInf = PosInf"
| "numAdd NegInf _ = NegInf"
| "numAdd _ NegInf = NegInf"
| "numAdd NegZero y = y"
| "numAdd x NegZero = x"
| "numAdd (Fin a) (Fin b) = Fin (a + b)"

text \<open>The sign bit, and division.\<close>

definition signBit :: "number \<Rightarrow> bool" where
  "signBit n = (case n of Fin q \<Rightarrow> q < 0 | NegInf \<Rightarrow> True | NegZero \<Rightarrow> True | _ \<Rightarrow> False)"

definition isZero :: "number \<Rightarrow> bool" where
  "isZero n = (n = NegZero \<or> n = Fin 0)"

definition isInf :: "number \<Rightarrow> bool" where
  "isInf n = (n = PosInf \<or> n = NegInf)"

definition ratOf :: "number \<Rightarrow> rat" where
  "ratOf n = (case n of Fin q \<Rightarrow> q | _ \<Rightarrow> 0)"

definition numDiv :: "number \<Rightarrow> number \<Rightarrow> number" where
  "numDiv x y =
     (let s = (signBit x \<noteq> signBit y) in
      if isNaN x \<or> isNaN y then NaN
      else if isInf x then (if isInf y then NaN else if s then NegInf else PosInf)
      else if isInf y then (if s then NegZero else Fin 0)
      else if isZero y then (if isZero x then NaN else if s then NegInf else PosInf)
      else if isZero x then (if s then NegZero else Fin 0)
      else Fin (ratOf x / ratOf y))"

subsection \<open>Characters and strings\<close>

definition isDigit :: "char \<Rightarrow> bool" where
  "isDigit c = (c \<in> set ''0123456789'')"

definition isUpper :: "char \<Rightarrow> bool" where
  "isUpper c = (c \<in> set ''ABCDEFGHIJKLMNOPQRSTUVWXYZ'')"

definition isLower :: "char \<Rightarrow> bool" where
  "isLower c = (c \<in> set ''abcdefghijklmnopqrstuvwxyz'')"

text \<open>The class \<open>\s\<close>, which is also what \<open>trim\<close> removes: tab, line feed, vertical tab,
  form feed, carriage return and space.\<close>

definition isSpace :: "char \<Rightarrow> bool" where
  "isSpace c = (c \<in> set [CHR 0x09, CHR 0x0A, CHR 0x0B, CHR 0x0C, CHR 0x0D, CHR '' ''])"

text \<open>The class \<open>\w\<close>.\<close>

definition isWordChar :: "char \<Rightarrow> bool" where
  "isWordChar c = (isUpper c \<or> isLower c \<or> isDigit c \<or> c = CHR ''_'')"

definition lowerChar :: "char \<Rightarrow> char" where
  "lowerChar c =
     (case map_of (zip ''ABCDEFGHIJKLMNOPQRSTUVWXYZ'' ''abcdefghijklmnopqrstuvwxyz'') c of
        Some d \<Rightarrow> d
      | None \<Rightarrow> c)"

definition upperChar :: "char \<Rightarrow> char" where
  "upperChar c =
     (case map_of (zip ''abcdefghijklmnopqrstuvwxyz'' ''ABCDEFGHIJKLMNOPQRSTUVWXYZ'') c of
        Some d \<Rightarrow> d
      | None \<Rightarrow> c)"

definition toLowerCase :: "string \<Rightarrow> string" where
  "toLowerCase s = map lowerChar s"

definition toUpperCase :: "string \<Rightarrow> string" where
  "toUpperCase s = map upperChar s"

definition trimStart :: "string \<Rightarrow> string" where
  "trimStart s = dropWhile isSpace s"

definition trim :: "string \<Rightarrow> string" where
  "trim s = rev (dropWhile isSpace (rev (dropWhile isSpace s)))"

definition includesChar :: "string \<Rightarrow> char \<Rightarrow> bool" where
  "includesChar s c = (c \<in> set s)"

subsection \<open>Decimal numerals\<close>

definition digitVal :: "char \<Rightarrow> nat" where
  "digitVal c =
     (case map_of (zip ''0123456789'' [0, 1, 2, 3, 4, 5, 6, 7, 8, 9]) c of
        Some d \<Rightarrow> d
      | None \<Rightarrow> 0)"

definition digitsVal :: "string \<Rightarrow> nat" where
  "digitsVal ds = foldl (\<lambda>a c. 10 * a + digitVal c) 0 ds"

definition hexVal :: "char \<Rightarrow> nat" where
  "hexVal c =
     (case map_of (zip ''abcdefABCDEF'' [10, 11, 12, 13, 14, 15, 10, 11, 12, 13, 14, 15]) c of
        Some d \<Rightarrow> d
      | None \<Rightarrow> digitVal c)"

definition isHexDigit :: "char \<Rightarrow> bool" where
  "isHexDigit c = (isDigit c \<or> c \<in> set ''abcdefABCDEF'')"

definition radixVal :: "nat \<Rightarrow> string \<Rightarrow> nat" where
  "radixVal b ds = foldl (\<lambda>a c. b * a + hexVal c) 0 ds"

text \<open>\<open>q * 10 ^ e\<close> for an integer exponent.\<close>

definition scale10 :: "rat \<Rightarrow> int \<Rightarrow> rat" where
  "scale10 q e = (if 0 \<le> e then q * 10 ^ nat e else q / 10 ^ nat (- e))"

text \<open>The optional exponent part of a decimal literal: the exponent read and the rest of
  the input. An \<open>e\<close> that no digit follows is not part of the literal.\<close>

definition scanExponent :: "string \<Rightarrow> int \<times> string" where
  "scanExponent s =
     (case s of
        [] \<Rightarrow> (0, s)
      | c # r \<Rightarrow>
          if c = CHR ''e'' \<or> c = CHR ''E'' then
            (let neg = (case r of [] \<Rightarrow> False | d # _ \<Rightarrow> d = CHR ''-'');
                 r' = (case r of [] \<Rightarrow> r | d # t \<Rightarrow> if d = CHR ''+'' \<or> d = CHR ''-'' then t else r);
                 ds = takeWhile isDigit r'
             in if ds = [] then (0, s)
                else ((if neg then - int (digitsVal ds) else int (digitsVal ds)),
                      dropWhile isDigit r'))
          else (0, s))"

text \<open>The longest prefix that is an unsigned decimal literal (\<open>digits\<close>, \<open>digits.\<close>,
  \<open>digits.digits\<close>, \<open>.digits\<close>, each with an optional exponent): its value and the rest.\<close>

definition scanUnsigned :: "string \<Rightarrow> (rat \<times> string) option" where
  "scanUnsigned s =
     (let ip = takeWhile isDigit s; r1 = dropWhile isDigit s in
      case r1 of
        [] \<Rightarrow> if ip = [] then None else Some (of_nat (digitsVal ip), [])
      | c # r2 \<Rightarrow>
          if c = CHR ''.'' then
            (let fp = takeWhile isDigit r2; r3 = dropWhile isDigit r2 in
             if ip = [] \<and> fp = [] then None
             else (let m = of_nat (digitsVal ip) + of_nat (digitsVal fp) / 10 ^ length fp;
                       (e, r4) = scanExponent r3
                   in Some (scale10 m e, r4)))
          else if ip = [] then None
          else (let (e, r4) = scanExponent r1 in Some (scale10 (of_nat (digitsVal ip)) e, r4)))"

text \<open>The longest prefix that is a signed decimal literal or a signed \<open>Infinity\<close>.\<close>

definition scanDecimal :: "string \<Rightarrow> (number \<times> string) option" where
  "scanDecimal s =
     (let neg = (case s of [] \<Rightarrow> False | c # _ \<Rightarrow> c = CHR ''-'');
          r = (case s of [] \<Rightarrow> s | c # t \<Rightarrow> if c = CHR ''+'' \<or> c = CHR ''-'' then t else s)
      in if take 8 r = ''Infinity'' then Some (if neg then NegInf else PosInf, drop 8 r)
         else (case scanUnsigned r of
                 None \<Rightarrow> None
               | Some (q, rest) \<Rightarrow> Some (if neg then numNeg (Fin q) else Fin q, rest)))"

text \<open>An unsigned integer literal in base 16, 8 or 2 (\<open>0x\<close>, \<open>0o\<close>, \<open>0b\<close>).\<close>

definition scanNonDecimal :: "string \<Rightarrow> number option" where
  "scanNonDecimal s =
     (case s of
        z # x # ds \<Rightarrow>
          if z = CHR ''0'' \<and> ds \<noteq> [] then
            (if (x = CHR ''x'' \<or> x = CHR ''X'') \<and> list_all isHexDigit ds
               then Some (Fin (of_nat (radixVal 16 ds)))
             else if (x = CHR ''o'' \<or> x = CHR ''O'') \<and> list_all (\<lambda>c. c \<in> set ''01234567'') ds
               then Some (Fin (of_nat (radixVal 8 ds)))
             else if (x = CHR ''b'' \<or> x = CHR ''B'') \<and> list_all (\<lambda>c. c \<in> set ''01'') ds
               then Some (Fin (of_nat (radixVal 2 ds)))
             else None)
          else None
      | _ \<Rightarrow> None)"

text \<open>\<open>Number(s)\<close> on a string: the whole trimmed string must be a numeric literal; the
  empty string is zero.\<close>

definition Number :: "string \<Rightarrow> number" where
  "Number s =
     (let t = trim s in
      if t = [] then Fin 0
      else (case scanNonDecimal t of
              Some n \<Rightarrow> n
            | None \<Rightarrow> (case scanDecimal t of
                          Some (n, rest) \<Rightarrow> if rest = [] then n else NaN
                        | None \<Rightarrow> NaN)))"

text \<open>\<open>parseFloat(s)\<close>: the longest decimal prefix after leading white space.\<close>

definition parseFloat :: "string \<Rightarrow> number" where
  "parseFloat s = (case scanDecimal (trimStart s) of Some (n, rest) \<Rightarrow> n | None \<Rightarrow> NaN)"

section \<open>services/formatters.ts\<close>

subsection \<open>parseCurrency\<close>

text \<open>The characters that the replacement of \<open>/[^0-9.-]+/g\<close> by the empty string keeps.\<close>

definition keepChar :: "char \<Rightarrow> bool" where
  "keepChar c = (isDigit c \<or> c = CHR ''.'' \<or> c = CHR ''-'')"

definition parseCurrency :: "jsval \<Rightarrow> number option" where
  "parseCurrency v =
     (case v of
        JNum n \<Rightarrow> Some n
      | JStr s \<Rightarrow>
          if trim s = [] then None
          else (let isNegative = (includesChar s (CHR ''('') \<and> includesChar s (CHR '')''));
                    cleanedString = filter keepChar s
                in if cleanedString = [] \<or> cleanedString = ''.'' \<or> cleanedString = ''-''
                   then None
                   else (let num = Number cleanedString
                         in if isNaN num then None
                            else if isNegative \<and> gtZero num then Some (numNeg num)
                            else Some num))
      | _ \<Rightarrow> None)"

subsection \<open>formatCurrency\<close>

definition digitChar :: "nat \<Rightarrow> char" where
  "digitChar d = ''0123456789'' ! d"

text \<open>The decimal digits of a natural number, without leading zeros.\<close>

function showNat :: "nat \<Rightarrow> string" where
  "showNat n = (if n < 10 then [digitChar n] else showNat (n div 10) @ [digitChar (n mod 10)])"
  by pat_completeness auto
termination
  by (relation "measure id") auto

declare showNat.simps [simp del]

definition showInt :: "int \<Rightarrow> string" where
  "showInt i = (if i < 0 then CHR ''-'' # showNat (nat (- i)) else showNat (nat i))"

text \<open>Grouping of the integer digits by three, from the right, with commas.\<close>

function group3 :: "string \<Rightarrow> string" where
  "group3 ds = (if length ds \<le> 3 then ds
                else group3 (take (length ds - 3) ds) @ CHR '','' # drop (length ds - 3) ds)"
  by pat_completeness auto
termination
  by (relation "measure length") auto

declare group3.simps [simp del]

text \<open>Rounding of a magnitude to the nearest integer, a tie going away from zero.\<close>

definition roundHalfUp :: "rat \<Rightarrow> nat" where
  "roundHalfUp x = nat \<lfloor>x + 1 / 2\<rfloor>"

definition pad2 :: "nat \<Rightarrow> string" where
  "pad2 n = [digitChar (n div 10), digitChar (n mod 10)]"

subsection \<open>Number to string\<close>

text \<open>
  \<open>Number::toString\<close>. The digits that the host prints for a finite number other
  than zero are no code of the repository: they are the parameter \<open>ns\<close>.
\<close>

definition numberToString :: "(rat \<Rightarrow> string) \<Rightarrow> number \<Rightarrow> string" where
  "numberToString ns n =
     (case n of
        NaN \<Rightarrow> ''NaN''
      | PosInf \<Rightarrow> ''Infinity''
      | NegInf \<Rightarrow> ''-Infinity''
      | NegZero \<Rightarrow> ''0''
      | Fin q \<Rightarrow> if q = 0 then ''0'' else ns q)"

text \<open>The digits of \<open>n / 10 ^ f\<close> with \<open>f\<close> fraction digits.\<close>

definition fixedDigits :: "nat \<Rightarrow> nat \<Rightarrow> string" where
  "fixedDigits f n =
     (let m = showNat n;
          m' = (if length m \<le> f then replicate (f + 1 - length m) (CHR ''0'') @ m else m);
          k = length m'
      in if f = 0 then m' else take (k - f) m' @ ''.'' @ drop (k - f) m')"

text \<open>\<open>x.toFixed(f)\<close>\<close>

definition toFixed :: "(rat \<Rightarrow> string) \<Rightarrow> nat \<Rightarrow> number \<Rightarrow> string" where
  "toFixed ns f x =
     (case x of
        Fin q \<Rightarrow>
          (if q < 0 then ''-'' else [])
          @ (if 10 ^ 21 \<le> \<bar>q\<bar> then numberToString ns (Fin \<bar>q\<bar>)
             else fixedDigits f (roundHalfUp (\<bar>q\<bar> * 10 ^ f)))
      | NegZero \<Rightarrow> fixedDigits f 0
      | _ \<Rightarrow> numberToString ns x)"

text \<open>The sign for infinity, U+221E, in UTF-8.\<close>

definition infinitySign :: string where
  "infinitySign = [CHR 0xE2, CHR 0x88, CHR 0x9E]"

text \<open>
  \<open>new Intl.NumberFormat('en-US', {style: 'currency', currency: 'USD'}).format(n)\<close>:
  the dollar sign, the integer digits grouped by three, a point and two fraction digits;
  the magnitude is rounded half away from zero, and the minus sign is that of the number
  before rounding (a negative value that rounds to zero, and the negative zero, keep it).
\<close>

definition formatUSD :: "number \<Rightarrow> string" where
  "formatUSD n =
     (case n of
        NaN \<Rightarrow> ''$NaN''
      | PosInf \<Rightarrow> ''$'' @ infinitySign
      | NegInf \<Rightarrow> ''-$'' @ infinitySign
      | NegZero \<Rightarrow> ''-$0.00''
      | Fin q \<Rightarrow>
          (let cents = roundHalfUp (\<bar>q\<bar> * 100)
           in (if q < 0 then ''-'' else []) @ ''$'' @ group3 (showNat (cents div 100))
              @ ''.'' @ pad2 (cents mod 100)))"

text \<open>\<open>v ?? ''\<close>\<close>

definition orEmpty :: "jsval \<Rightarrow> jsval" where
  "orEmpty v = (case v of JUndefined \<Rightarrow> JStr [] | JNull \<Rightarrow> JStr [] | _ \<Rightarrow> v)"

text \<open>\<open>String(v)\<close>\<close>

definition String :: "(rat \<Rightarrow> string) \<Rightarrow> jsval \<Rightarrow> string" where
  "String ns v =
     (case v of
        JUndefined \<Rightarrow> ''undefined''
      | JNull \<Rightarrow> ''null''
      | JBool b \<Rightarrow> if b then ''true'' else ''false''
      | JNum n \<Rightarrow> numberToString ns n
      | JStr s \<Rightarrow> s
      | JBigInt i \<Rightarrow> showInt i
      | JObject s \<Rightarrow> s)"

definition formatCurrency :: "(rat \<Rightarrow> string) \<Rightarrow> jsval \<Rightarrow> string" where
  "formatCurrency ns v =
     (case parseCurrency v of
        None \<Rightarrow> String ns (orEmpty v)
      | Some n \<Rightarrow> formatUSD n)"

subsection \<open>parsePercent\<close>

definition parsePercent :: "jsval \<Rightarrow> number option" where
  "parsePercent v =
     (case v of
        JNum n \<Rightarrow> Some n
      | JStr s \<Rightarrow>
          if trim s = [] then None
          else (let cleanedString = trim (filter (\<lambda>c. c \<noteq> CHR ''%'') s);
                    num = parseFloat cleanedString
                in if isNaN num then None else Some num)
      | _ \<Rightarrow> None)"

subsection \<open>toTitleCase\<close>

text \<open>
  \<open>str.replace(/\w\S*/g, f)\<close>: the input is scanned from the left; a match starts at a
  word character and takes every character up to the next white space; a character at
  which no match starts is copied. \<open>f\<close> puts the first character of the match in upper
  case and the others in lower case.
\<close>

function replaceWords :: "string \<Rightarrow> string" where
  "replaceWords [] = []"
| "replaceWords (c # cs) =
     (if isWordChar c
      then toUpperCase [c] @ toLowerCase (takeWhile (\<lambda>d. \<not> isSpace d) cs)
           @ replaceWords (dropWhile (\<lambda>d. \<not> isSpace d) cs)
      else c # replaceWords cs)"
  by pat_completeness auto
termination
  by (relation "measure length") (auto simp: length_dropWhile_le less_Suc_eq_le)

text \<open>The argument is \<open>None\<close> when the caller passes \<open>null\<close> or \<open>undefined\<close>.\<close>

definition toTitleCase :: "string option \<Rightarrow> string" where
  "toTitleCase str =
     (case str of
        None \<Rightarrow> []
      | Some s \<Rightarrow> if s = [] then [] else replaceWords s)"

section \<open>Tables\<close>

text \<open>A row of the parsed sheet is an object: a map from header to cell. Reading a key
  that the row does not have gives \<open>undefined\<close>.\<close>

type_synonym row = "string \<rightharpoonup> jsval"

definition getCell :: "row \<Rightarrow> string \<Rightarrow> jsval" where
  "getCell r h = (case r h of None \<Rightarrow> JUndefined | Some v \<Rightarrow> v)"

datatype halign = AlignLeft | AlignRight

text \<open>A displayed cell: nothing, or a text with its alignment.\<close>

datatype cell = Empty | Cell string halign

definition cellText :: "cell \<Rightarrow> string" where
  "cellText c = (case c of Empty \<Rightarrow> [] | Cell s a \<Rightarrow> s)"

text \<open>\<open>headers.find(h => h.toLowerCase() === targetHeader.toLowerCase())\<close>\<close>

definition findHeader :: "string list \<Rightarrow> string \<Rightarrow> string option" where
  "findHeader headers targetHeader =
     find (\<lambda>h. toLowerCase h = toLowerCase targetHeader) headers"

text \<open>\<open>xs.findIndex(p)\<close>, which is \<open>-1\<close> when no element satisfies \<open>p\<close>.\<close>

definition findIndex :: "('a \<Rightarrow> bool) \<Rightarrow> 'a list \<Rightarrow> int" where
  "findIndex p xs =
     (if list_ex p xs then int (length (takeWhile (\<lambda>x. \<not> p x) xs)) else - 1)"

definition findHeaderIndex :: "string list \<Rightarrow> string \<Rightarrow> int" where
  "findHeaderIndex headers targetHeader =
     findIndex (\<lambda>h. toLowerCase h = toLowerCase targetHeader) headers"

text \<open>Truthiness of the result of \<open>find\<close>: \<open>undefined\<close> and the empty string are falsy.
  In the totals below the same test is written as a case distinction on the header found.\<close>

definition truthyHeader :: "string option \<Rightarrow> bool" where
  "truthyHeader h = (case h of None \<Rightarrow> False | Some s \<Rightarrow> s \<noteq> [])"

text \<open>\<open>x || 0\<close> for the result of a parser.\<close>

definition orZero :: "number option \<Rightarrow> number" where
  "orZero x = (case x of None \<Rightarrow> Fin 0 | Some n \<Rightarrow> if truthyNum n then n else Fin 0)"

text \<open>\<open>data.reduce((acc, row) => acc + (parse(row[header]) || 0), 0)\<close>\<close>

definition sumColumn :: "(jsval \<Rightarrow> number option) \<Rightarrow> string \<Rightarrow> row list \<Rightarrow> number" where
  "sumColumn parse header data =
     foldl (\<lambda>acc r. numAdd acc (orZero (parse (getCell r header)))) (Fin 0) data"

record totals =
  regularPaymentTotal :: number
  loanBalanceTotal :: number
  portfolioYield :: number
  loanCount :: nat

definition columnsToAlignRight :: "string list" where
  "columnsToAlignRight =
     map toLowerCase [''Interest Rate'', ''Maturity Date'', ''Term Left'', ''Regular Payment'',
       ''Loan Balance'', ''Percent Owned'']"

definition yieldText :: "(rat \<Rightarrow> string) \<Rightarrow> number \<Rightarrow> nat \<Rightarrow> string" where
  "yieldText ns y n =
     ''Portfolio Yield: '' @ toFixed ns 4 y @ ''% ('' @ showNat n @ '' loans)''"

section \<open>components/ReportPreview.tsx\<close>

text \<open>The memoised \<open>totals\<close> of the component.\<close>

definition previewTotals :: "string list \<Rightarrow> row list \<Rightarrow> totals" where
  "previewTotals headers data =
     (let regularPaymentHeader = findHeader headers ''Regular Payment'';
          loanBalanceHeader = findHeader headers ''Loan Balance'';
          interestRateHeader = findHeader headers ''Interest Rate'';
          rpTotal = (case regularPaymentHeader of
                       Some h \<Rightarrow> if h \<noteq> [] then sumColumn parseCurrency h data else Fin 0
                     | None \<Rightarrow> Fin 0);
          lbTotal = (case loanBalanceHeader of
                       Some h \<Rightarrow> if h \<noteq> [] then sumColumn parseCurrency h data else Fin 0
                     | None \<Rightarrow> Fin 0);
          n = length data;
          y = (case interestRateHeader of
                 Some h \<Rightarrow>
                   if h \<noteq> [] \<and> 0 < n
                   then numDiv (sumColumn parsePercent h data) (Fin (of_nat n))
                   else Fin 0
               | None \<Rightarrow> Fin 0)
      in \<lparr> regularPaymentTotal = rpTotal, loanBalanceTotal = lbTotal,
           portfolioYield = y, loanCount = n \<rparr>)"

text \<open>One cell of the table body.\<close>

definition previewCell :: "(rat \<Rightarrow> string) \<Rightarrow> row \<Rightarrow> string \<Rightarrow> cell" where
  "previewCell ns r header =
     (let lowerCaseHeader = toLowerCase header;
          isRightAligned = (lowerCaseHeader \<in> set columnsToAlignRight);
          isCurrency = (lowerCaseHeader = ''regular payment'' \<or> lowerCaseHeader = ''loan balance'')
      in Cell (if isCurrency then formatCurrency ns (getCell r header)
               else String ns (orEmpty (getCell r header)))
              (if isRightAligned then AlignRight else AlignLeft))"

text \<open>The body: the first fifty rows.\<close>

definition previewBody :: "(rat \<Rightarrow> string) \<Rightarrow> string list \<Rightarrow> row list \<Rightarrow> cell list list" where
  "previewBody ns headers data = map (\<lambda>r. map (previewCell ns r) headers) (take 50 data)"

definition previewHead :: "string list \<Rightarrow> cell list" where
  "previewHead headers =
     map (\<lambda>header. Cell (toTitleCase (Some header))
            (if toLowerCase header \<in> set columnsToAlignRight then AlignRight else AlignLeft))
         headers"

text \<open>One cell of the footer, for the column at \<open>index\<close>.\<close>

definition previewFootCell :: "(rat \<Rightarrow> string) \<Rightarrow> string list \<Rightarrow> totals \<Rightarrow> nat \<Rightarrow> cell" where
  "previewFootCell ns headers t index =
     (let regularPaymentIndex = findHeaderIndex headers ''Regular Payment'';
          loanBalanceIndex = findHeaderIndex headers ''Loan Balance'';
          hasInterestRate = list_ex (\<lambda>h. toLowerCase h = ''interest rate'') headers
      in if index = 0 then Cell ''Totals'' AlignLeft
         else if index = 1 \<and> hasInterestRate
           then Cell (yieldText ns (portfolioYield t) (loanCount t)) AlignLeft
         else if int index = regularPaymentIndex
           then Cell (formatCurrency ns (JNum (regularPaymentTotal t))) AlignRight
         else if int index = loanBalanceIndex
           then Cell (formatCurrency ns (JNum (loanBalanceTotal t))) AlignRight
         else Empty)"

definition previewFoot :: "(rat \<Rightarrow> string) \<Rightarrow> string list \<Rightarrow> row list \<Rightarrow> cell list" where
  "previewFoot ns headers data =
     map (previewFootCell ns headers (previewTotals headers data)) [0..<length headers]"

text \<open>The line under the table.\<close>

definition previewIndicator :: "row list \<Rightarrow> string option" where
  "previewIndicator data =
     (if 50 < length data
      then Some (''Mostrando las primeras 50 filas de '' @ showNat (length data) @ '' totales.'')
      else None)"

text \<open>What the component renders: a placeholder when no column is selected, and else the
  table and the line under it.\<close>

record table =
  thead :: "cell list"
  tbody :: "cell list list"
  tfoot :: "cell list"
  indicator :: "string option"

datatype rendered = Placeholder | Table table

definition ReportPreview :: "(rat \<Rightarrow> string) \<Rightarrow> string list \<Rightarrow> row list \<Rightarrow> rendered" where
  "ReportPreview ns headers data =
     (if length headers = 0 then Placeholder
      else Table \<lparr> thead = previewHead headers,
                   tbody = previewBody ns headers data,
                   tfoot = previewFoot ns headers data,
                   indicator = previewIndicator data \<rparr>)"

section \<open>services/pdfGenerator.ts\<close>

text \<open>
  What \<open>generatePdf\<close> hands to the table plugin: the head, the body as raw values, the
  footer row and the styles of the columns. The fetching of the logo, the drawing of the
  title and the saving of the file are no part of the model.
\<close>

definition pdfCell :: "(rat \<Rightarrow> string) \<Rightarrow> row \<Rightarrow> string \<Rightarrow> jsval" where
  "pdfCell ns r header =
     (let lowerCaseHeader = toLowerCase header
      in if lowerCaseHeader = ''regular payment'' \<or> lowerCaseHeader = ''loan balance''
         then JStr (formatCurrency ns (getCell r header))
         else orEmpty (getCell r header))"

definition tableData :: "(rat \<Rightarrow> string) \<Rightarrow> string list \<Rightarrow> row list \<Rightarrow> jsval list list" where
  "tableData ns headers data = map (\<lambda>r. map (pdfCell ns r) headers) data"

text \<open>\<open>columnStyles\<close>: the indices of the columns that get \<open>halign: 'right'\<close>.\<close>

definition columnStyles :: "string list \<Rightarrow> nat list" where
  "columnStyles headers =
     filter (\<lambda>index. toLowerCase (headers ! index) \<in> set columnsToAlignRight)
       [0..<length headers]"

definition pdfTotals :: "string list \<Rightarrow> row list \<Rightarrow> totals" where
  "pdfTotals headers data =
     (let regularPaymentHeader = findHeader headers ''Regular Payment'';
          loanBalanceHeader = findHeader headers ''Loan Balance'';
          interestRateHeader = findHeader headers ''Interest Rate'';
          rpTotal = (case regularPaymentHeader of
                       Some h \<Rightarrow> if h \<noteq> [] then sumColumn parseCurrency h data else Fin 0
                     | None \<Rightarrow> Fin 0);
          lbTotal = (case loanBalanceHeader of
                       Some h \<Rightarrow> if h \<noteq> [] then sumColumn parseCurrency h data else Fin 0
                     | None \<Rightarrow> Fin 0);
          n = length data;
          hasInterestRate = truthyHeader interestRateHeader;
          y = (case interestRateHeader of
                 Some h \<Rightarrow>
                   if hasInterestRate \<and> 0 < n
                   then numDiv (sumColumn parsePercent h data) (Fin (of_nat n))
                   else Fin 0
               | None \<Rightarrow> Fin 0)
      in \<lparr> regularPaymentTotal = rpTotal, loanBalanceTotal = lbTotal,
           portfolioYield = y, loanCount = n \<rparr>)"

text \<open>The footer row: an array of empty strings, assigned to in this order.\<close>

definition footerRow :: "(rat \<Rightarrow> string) \<Rightarrow> string list \<Rightarrow> row list \<Rightarrow> cell list" where
  "footerRow ns headers data =
     (let t = pdfTotals headers data;
          hasInterestRate = truthyHeader (findHeader headers ''Interest Rate'');
          regularPaymentIndex = findHeaderIndex headers ''Regular Payment'';
          loanBalanceIndex = findHeaderIndex headers ''Loan Balance'';
          f0 = replicate (length headers) Empty;
          f1 = (if 0 < length headers then f0[0 := Cell ''Totals'' AlignLeft] else f0);
          f2 = (if 1 < length headers \<and> hasInterestRate
                then f1[1 := Cell (yieldText ns (portfolioYield t) (loanCount t)) AlignLeft]
                else f1);
          f3 = (if regularPaymentIndex \<noteq> - 1
                then f2[nat regularPaymentIndex :=
                          Cell (formatCurrency ns (JNum (regularPaymentTotal t))) AlignRight]
                else f2);
          f4 = (if loanBalanceIndex \<noteq> - 1
                then f3[nat loanBalanceIndex :=
                          Cell (formatCurrency ns (JNum (loanBalanceTotal t))) AlignRight]
                else f3)
      in f4)"

text \<open>The text that the table plugin prints for a raw body value: its coercion to a
  string. The plugin is no code of the repository.\<close>

definition pdfCellText :: "(rat \<Rightarrow> string) \<Rightarrow> jsval \<Rightarrow> string" where
  "pdfCellText ns v = String ns v"

definition pdfHead :: "string list \<Rightarrow> string list" where
  "pdfHead headers = map (\<lambda>h. toTitleCase (Some h)) headers"

section \<open>Descriptions of the specification\<close>











section \<open>Evaluation and basic facts\<close>

lemma floor_numeral_div:
  "\<lfloor>numeral a / numeral b :: rat\<rfloor> = numeral a div numeral b"
  using floor_divide_of_int_eq [of "numeral a" "numeral b", where ?'a = rat] by simp

lemmas num_eval = Let_def floor_numeral_div isNaN_def isFinite_def gtZero_def numNeg_def
  truthyNum_def signBit_def isZero_def isInf_def ratOf_def numDiv_def

lemmas chr_eval = isDigit_def isUpper_def isLower_def isSpace_def isWordChar_def
  lowerChar_def upperChar_def toLowerCase_def toUpperCase_def trimStart_def trim_def
  includesChar_def

lemmas scan_eval = digitVal_def digitsVal_def hexVal_def radixVal_def isHexDigit_def
  scale10_def scanExponent_def scanUnsigned_def scanDecimal_def scanNonDecimal_def
  Number_def parseFloat_def

lemmas fmt_eval = keepChar_def parseCurrency_def digitChar_def showNat.simps group3.simps
  roundHalfUp_def pad2_def formatUSD_def orEmpty_def String_def formatCurrency_def
  parsePercent_def toTitleCase_def showInt_def infinitySign_def numberToString_def
  fixedDigits_def toFixed_def

lemmas tbl_eval = getCell_def cellText_def findHeader_def findIndex_def findHeaderIndex_def
  truthyHeader_def orZero_def sumColumn_def columnsToAlignRight_def yieldText_def
  previewTotals_def previewCell_def previewBody_def previewHead_def previewFootCell_def
  previewFoot_def previewIndicator_def ReportPreview_def pdfCell_def tableData_def
  columnStyles_def pdfTotals_def footerRow_def pdfCellText_def pdfHead_def


lemma trim_Nil_iff: "trim s = [] \<longleftrightarrow> (\<forall>c\<in>set s. isSpace c)"
proof
  assume "trim s = []"
  then have "\<forall>c\<in>set (dropWhile isSpace s). isSpace c"
    by (simp add: trim_def)
  then have "dropWhile isSpace s = []"
    by (metis hd_dropWhile list.set_sel(1))
  then show "\<forall>c\<in>set s. isSpace c"
    by simp
next
  assume "\<forall>c\<in>set s. isSpace c"
  then show "trim s = []"
    by (auto simp: trim_def dest: set_dropWhileD)
qed

lemma keepChar_set: "keepChar c \<longleftrightarrow> c \<in> set ''0123456789.-''"
  by (auto simp: keepChar_def isDigit_def)

section \<open>The contract of parseCurrency\<close>

text \<open>
  Claim C1. \<open>parseCurrency\<close> returns a number unchanged; it returns nothing for a value
  that is neither a number nor a string and for a string of white space only; for any
  other string it keeps the decimal digits, the point and the minus sign, returns nothing
  when what is left is empty, a lone point, a lone minus sign or no numeric literal, and
  else returns the number read, negated exactly when the string contains both an opening
  and a closing parenthesis and the number read is strictly positive. The five examples
  of the specification hold.
\<close>

theorem parseCurrency_contract:
  "parseCurrency (JNum n) = Some n
   \<and> ((\<forall>m. v \<noteq> JNum m) \<and> (\<forall>t. v \<noteq> JStr t) \<longrightarrow> parseCurrency v = None)
   \<and> ((\<forall>c\<in>set s. isSpace c) \<longrightarrow> parseCurrency (JStr s) = None)
   \<and> (\<not> (\<forall>c\<in>set s. isSpace c) \<longrightarrow>
        parseCurrency (JStr s) =
          (let residue = filter (\<lambda>c. c \<in> set ''0123456789.-'') s;
               num = Number residue
           in if residue = [] \<or> residue = ''.'' \<or> residue = ''-'' \<or> num = NaN then None
              else if CHR ''('' \<in> set s \<and> CHR '')'' \<in> set s \<and> gtZero num
                then Some (numNeg num)
              else Some num))
   \<and> parseCurrency (JStr ''$1,234.56'') = Some (Fin (123456 / 100))
   \<and> parseCurrency (JStr ''(1,234.56)'') = Some (Fin (- (123456 / 100)))
   \<and> parseCurrency (JStr ''-1,234.56'') = Some (Fin (- (123456 / 100)))
   \<and> parseCurrency (JStr []) = None
   \<and> parseCurrency (JStr ''abc'') = None"
proof -
  have num: "parseCurrency (JNum n) = Some n"
    by (simp add: parseCurrency_def)
  have other: "(\<forall>m. v \<noteq> JNum m) \<and> (\<forall>t. v \<noteq> JStr t) \<longrightarrow> parseCurrency v = None"
    by (cases v) (simp_all add: parseCurrency_def)
  have blank: "(\<forall>c\<in>set s. isSpace c) \<longrightarrow> parseCurrency (JStr s) = None"
    by (simp add: parseCurrency_def trim_Nil_iff)
  have keep: "filter (\<lambda>c. c \<in> set ''0123456789.-'') s = filter keepChar s"
    by (rule filter_cong) (simp_all only: keepChar_set)
  have str: "\<not> (\<forall>c\<in>set s. isSpace c) \<longrightarrow>
        parseCurrency (JStr s) =
          (let residue = filter (\<lambda>c. c \<in> set ''0123456789.-'') s;
               num = Number residue
           in if residue = [] \<or> residue = ''.'' \<or> residue = ''-'' \<or> num = NaN then None
              else if CHR ''('' \<in> set s \<and> CHR '')'' \<in> set s \<and> gtZero num
                then Some (numNeg num)
              else Some num)"
    unfolding keep
    by (simp add: parseCurrency_def trim_Nil_iff [symmetric] includesChar_def isNaN_def Let_def)
  have e1: "parseCurrency (JStr ''$1,234.56'') = Some (Fin (123456 / 100))"
    by (simp add: num_eval chr_eval scan_eval fmt_eval)
  have e2: "parseCurrency (JStr ''(1,234.56)'') = Some (Fin (- (123456 / 100)))"
    by (simp add: num_eval chr_eval scan_eval fmt_eval)
  have e3: "parseCurrency (JStr ''-1,234.56'') = Some (Fin (- (123456 / 100)))"
    by (simp add: num_eval chr_eval scan_eval fmt_eval)
  have e4: "parseCurrency (JStr []) = None"
    by (simp add: num_eval chr_eval scan_eval fmt_eval)
  have e5: "parseCurrency (JStr ''abc'') = None"
    by (simp add: num_eval chr_eval scan_eval fmt_eval)
  from num other blank str e1 e2 e3 e4 e5 show ?thesis
    by (intro conjI)
qed

theorem parseCurrency_contract_witness:
  "(\<forall>m. JBool True \<noteq> JNum m) \<and> (\<forall>t. JBool True \<noteq> JStr t)
   \<and> parseCurrency (JBool True) = None
   \<and> \<not> (\<forall>c\<in>set ''(-5) ''. isSpace c)
   \<and> parseCurrency (JStr ''(-5) '') = Some (Fin (- 5))"
  using parseCurrency_contract [of NaN "JBool True" "''(-5) ''"]
  by (simp add: num_eval chr_eval scan_eval)

section \<open>The contract of parsePercent\<close>




section \<open>Decimal digits\<close>

lemma lt10_cases: "d < 10 \<Longrightarrow> d \<in> {0, 1, 2, 3, 4, 5, 6, 7, 8, 9::nat}"
  by auto

lemma isDigit_digitChar: "d < 10 \<Longrightarrow> isDigit (digitChar d)"
  by (drule lt10_cases) (auto simp: isDigit_def digitChar_def)

lemma digitVal_digitChar: "d < 10 \<Longrightarrow> digitVal (digitChar d) = d"
  by (drule lt10_cases) (auto simp: digitVal_def digitChar_def)

lemma showNat_digits: "c \<in> set (showNat n) \<Longrightarrow> isDigit c"
proof (induction n rule: showNat.induct)
  case (1 n)
  show ?case
  proof (cases "n < 10")
    case True
    with "1.prems" show ?thesis
      by (simp add: showNat.simps [of n] isDigit_digitChar)
  next
    case False
    with "1.prems" "1.IH" show ?thesis
      by (auto simp: showNat.simps [of n] isDigit_digitChar)
  qed
qed

lemma showNat_not_Nil: "showNat n \<noteq> []"
  by (subst showNat.simps) simp

lemma digitsVal_snoc: "digitsVal (ds @ [c]) = 10 * digitsVal ds + digitVal c"
  by (simp add: digitsVal_def)

lemma digitsVal_showNat: "digitsVal (showNat n) = n"
proof (induction n rule: showNat.induct)
  case (1 n)
  show ?case
  proof (cases "n < 10")
    case True
    then show ?thesis
      by (simp add: showNat.simps [of n] digitsVal_def digitVal_digitChar)
  next
    case False
    with "1.IH" show ?thesis
      by (simp add: showNat.simps [of n] digitsVal_snoc digitVal_digitChar)
  qed
qed

section \<open>Projection of the table\<close>

text \<open>
  Claim C8. The body handed to the PDF table has one row for each row of the data, in the
  order of the data, and in each row one cell for each selected header, in the order of
  the selection: the cell at row \<open>i\<close> and column \<open>j\<close> is computed from row \<open>i\<close> of the data
  and header \<open>j\<close> of the selection alone. The head lists the selected headers in the same
  order. Selecting Loan Balance before Borrower Name puts the balance first.
\<close>

theorem projection_order:
  "length (tableData ns headers data) = length data
   \<and> (\<forall>i<length data.
         length (tableData ns headers data ! i) = length headers
         \<and> (\<forall>j<length headers.
               tableData ns headers data ! i ! j = pdfCell ns (data ! i) (headers ! j)))
   \<and> pdfHead headers = map (\<lambda>h. toTitleCase (Some h)) headers
   \<and> tableData ns [''Loan Balance'', ''Borrower Name'']
        [[''Borrower Name'' \<mapsto> JStr ''Ann'', ''Loan Balance'' \<mapsto> JStr ''100''],
         [''Borrower Name'' \<mapsto> JStr ''Bob'', ''Loan Balance'' \<mapsto> JStr ''(7.5)'']]
      = [[JStr ''$100.00'', JStr ''Ann''], [JStr ''-$7.50'', JStr ''Bob'']]
   \<and> pdfHead [''Loan Balance'', ''Borrower Name''] = [''Loan Balance'', ''Borrower Name'']"
proof -
  have ex: "tableData ns [''Loan Balance'', ''Borrower Name'']
        [[''Borrower Name'' \<mapsto> JStr ''Ann'', ''Loan Balance'' \<mapsto> JStr ''100''],
         [''Borrower Name'' \<mapsto> JStr ''Bob'', ''Loan Balance'' \<mapsto> JStr ''(7.5)'']]
      = [[JStr ''$100.00'', JStr ''Ann''], [JStr ''-$7.50'', JStr ''Bob'']]"
    by (simp add: num_eval chr_eval scan_eval fmt_eval tbl_eval)
  have hd: "pdfHead [''Loan Balance'', ''Borrower Name''] = [''Loan Balance'', ''Borrower Name'']"
    by (simp add: chr_eval fmt_eval tbl_eval)
  show ?thesis
    using ex hd by (simp add: tableData_def pdfHead_def)
qed

theorem projection_order_witness:
  "(1::nat) < length [Map.empty :: row, [''b'' \<mapsto> JNull]]
   \<and> (1::nat) < length [''a'', ''b'']
   \<and> tableData (\<lambda>q. []) [''a'', ''b''] [Map.empty, [''b'' \<mapsto> JNull]] ! 1 ! 1
       = pdfCell (\<lambda>q. []) [''b'' \<mapsto> JNull] ''b''
   \<and> pdfCell (\<lambda>q. []) [''b'' \<mapsto> JNull] ''b'' = JStr []"
proof -
  have "tableData (\<lambda>q. []) [''a'', ''b''] [Map.empty, [''b'' \<mapsto> JNull]] ! 1 ! 1
       = pdfCell (\<lambda>q. []) ([Map.empty, [''b'' \<mapsto> JNull]] ! 1) ([''a'', ''b''] ! 1)"
    using projection_order [of "\<lambda>q. []" "[''a'', ''b'']" "[Map.empty, [''b'' \<mapsto> JNull]]"]
    by simp
  then show ?thesis
    by (simp add: chr_eval fmt_eval tbl_eval)
qed

section \<open>The row cap of the preview\<close>

text \<open>
  Claim C9, as stated, fails: with no column selected the component returns its
  placeholder before any row is rendered, so a table of 75 rows shows neither 50 rows nor
  the line that tells of 75.
\<close>

theorem preview_no_columns_counterexample:
  "ReportPreview (\<lambda>q. []) [] (replicate 75 Map.empty) = Placeholder"
  by (simp add: ReportPreview_def)

text \<open>
  Claim C9, amended. When at least one column is selected, the preview renders the first
  \<open>min n 50\<close> of the \<open>n\<close> rows and, when \<open>n > 50\<close>, a line that gives \<open>n\<close> in decimal digits
  (and no such line otherwise); the body handed to the PDF table has all \<open>n\<close> rows.
\<close>

theorem row_cap:
  "headers \<noteq> [] \<Longrightarrow>
   (\<exists>t. ReportPreview ns headers data = Table t
      \<and> length (tbody t) = min (length data) 50
      \<and> tbody t = map (\<lambda>r. map (previewCell ns r) headers) (take 50 data)
      \<and> (50 < length data \<longrightarrow>
           indicator t = Some (''Mostrando las primeras 50 filas de ''
                               @ showNat (length data) @ '' totales.'')
           \<and> digitsVal (showNat (length data)) = length data)
      \<and> (length data \<le> 50 \<longrightarrow> indicator t = None))
   \<and> length (tableData ns headers data) = length data
   \<and> tableData ns headers data = map (\<lambda>r. map (pdfCell ns r) headers) data"
  by (simp add: ReportPreview_def previewBody_def previewIndicator_def tableData_def
      digitsVal_showNat min_def)

theorem row_cap_witness:
  "[''a''] \<noteq> []
   \<and> (\<exists>t. ReportPreview (\<lambda>q. []) [''a''] (replicate 75 Map.empty) = Table t
        \<and> length (tbody t) = 50
        \<and> indicator t = Some ''Mostrando las primeras 50 filas de 75 totales.'')
   \<and> length (tableData (\<lambda>q. []) [''a''] (replicate 75 Map.empty)) = 75"
proof -
  have s75: "showNat 75 = ''75''"
    by (simp add: showNat.simps digitChar_def)
  show ?thesis
    using row_cap [of "[''a'']" "\<lambda>q. []" "replicate 75 Map.empty"]
    by (auto simp: s75)
qed

section \<open>Title case\<close>









section \<open>The aggregate record\<close>














lemma pdfTotals_eq: "pdfTotals headers data = previewTotals headers data"
  unfolding pdfTotals_def previewTotals_def Let_def truthyHeader_def
  by (auto split: option.splits)




section \<open>The footer row\<close>























lemma ex_fmt_100: "formatCurrency ns (JNum (Fin 100)) = ''$100.00''"
  by (simp add: num_eval fmt_eval)

lemma ex_fmt_0: "formatCurrency ns (JNum (Fin 0)) = ''$0.00''"
  by (simp add: num_eval fmt_eval)










lemma ex_totals_one:
  "previewTotals [''Loan Balance''] [[''Loan Balance'' \<mapsto> JStr ''100'']]
   = \<lparr> regularPaymentTotal = Fin 0, loanBalanceTotal = Fin 100, portfolioYield = Fin 0,
       loanCount = 1 \<rparr>"
  by (simp add: num_eval chr_eval scan_eval tbl_eval parseCurrency_def keepChar_def)

lemma ex_idx_one:
  "findHeaderIndex [''Loan Balance''] ''Regular Payment'' = - 1"
  "findHeaderIndex [''Loan Balance''] ''Loan Balance'' = 0"
  "findHeader [''Loan Balance''] ''Interest Rate'' = None"
  by (simp_all add: chr_eval findHeaderIndex_def findIndex_def findHeader_def)

text \<open>
  Claim C4 at a selection whose first column is Loan Balance: the preview keeps the
  label in the first cell of the footer, while the assignments of \<open>generatePdf\<close> overwrite
  it with the total.
\<close>

theorem footer_paths_disagree:
  "previewFoot (\<lambda>q. []) [''Loan Balance''] [[''Loan Balance'' \<mapsto> JStr ''100'']]
     = [Cell ''Totals'' AlignLeft]
   \<and> footerRow (\<lambda>q. []) [''Loan Balance''] [[''Loan Balance'' \<mapsto> JStr ''100'']]
     = [Cell ''$100.00'' AlignRight]"
proof -
  have a: "previewFoot (\<lambda>q. []) [''Loan Balance''] [[''Loan Balance'' \<mapsto> JStr ''100'']]
     = [Cell ''Totals'' AlignLeft]"
    by (simp add: previewFoot_def previewFootCell_def)
  have b: "footerRow (\<lambda>q. []) [''Loan Balance''] [[''Loan Balance'' \<mapsto> JStr ''100'']]
     = [Cell ''$100.00'' AlignRight]"
    by (simp add: footerRow_def pdfTotals_eq ex_totals_one ex_idx_one ex_fmt_100 truthyHeader_def)
  from a b show ?thesis
    by simp
qed

text \<open>Outside the footer the two paths agree: the text of each body cell, and the columns
  that are aligned to the right.\<close>

lemma body_cells_agree: "pdfCellText ns (pdfCell ns r h) = cellText (previewCell ns r h)"
  by (simp add: pdfCellText_def pdfCell_def previewCell_def cellText_def Let_def String_def)

lemma right_columns_agree:
  "i \<in> set (columnStyles headers) \<longleftrightarrow>
     i < length headers \<and> (\<exists>s. previewCell ns r (headers ! i) = Cell s AlignRight)"
  by (auto simp: columnStyles_def previewCell_def Let_def)

section \<open>Formatting and reading back\<close>

lemma keepChar_digit: "isDigit c \<Longrightarrow> keepChar c"
  by (simp add: keepChar_def)

lemma not_keep_comma: "\<not> keepChar (CHR '','')" "\<not> keepChar (CHR ''$'')"
  by (simp_all add: keepChar_def isDigit_def)

lemma filter_keep_digits: "\<forall>c\<in>set ds. isDigit c \<Longrightarrow> filter keepChar ds = ds"
  by (simp add: keepChar_digit)

lemma group3_filter:
  "\<forall>c\<in>set ds. isDigit c \<Longrightarrow> filter keepChar (group3 ds) = ds"
proof (induction ds rule: group3.induct)
  case (1 ds)
  show ?case
  proof (cases "length ds \<le> 3")
    case True
    with "1.prems" show ?thesis
      by (simp add: group3.simps [of ds] filter_keep_digits)
  next
    case False
    have t: "\<forall>c\<in>set (take (length ds - 3) ds). isDigit c"
      and d: "\<forall>c\<in>set (drop (length ds - 3) ds). isDigit c"
      using "1.prems" by (auto dest: in_set_takeD in_set_dropD)
    have "filter keepChar (group3 ds) =
        filter keepChar (group3 (take (length ds - 3) ds))
        @ filter keepChar (CHR '','' # drop (length ds - 3) ds)"
      using False by (simp add: group3.simps [of ds])
    also have "\<dots> = take (length ds - 3) ds @ drop (length ds - 3) ds"
      using "1.IH" [OF False t] d by (simp add: not_keep_comma filter_keep_digits)
    finally show ?thesis by simp
  qed
qed

lemma group3_set: "set (group3 ds) \<subseteq> insert (CHR '','') (set ds)"
proof (induction ds rule: group3.induct)
  case (1 ds)
  show ?case
  proof (cases "length ds \<le> 3")
    case True
    then show ?thesis by (auto simp: group3.simps [of ds])
  next
    case False
    have "set (group3 ds) =
        set (group3 (take (length ds - 3) ds)) \<union> insert (CHR '','') (set (drop (length ds - 3) ds))"
      using False by (simp add: group3.simps [of ds])
    with "1.IH" [OF False] show ?thesis
      by (auto dest: in_set_takeD in_set_dropD)
  qed
qed

lemma group3_hd: "ds \<noteq> [] \<Longrightarrow> group3 ds \<noteq> [] \<and> hd (group3 ds) = hd ds"
proof (induction ds rule: group3.induct)
  case (1 ds)
  show ?case
  proof (cases "length ds \<le> 3")
    case True
    with "1.prems" show ?thesis by (simp add: group3.simps [of ds])
  next
    case False
    then have ne: "take (length ds - 3) ds \<noteq> []" by auto
    from "1.IH" [OF False ne] False show ?thesis
      by (simp add: group3.simps [of ds] hd_append)
  qed
qed


lemma dropWhile_hd: "xs \<noteq> [] \<Longrightarrow> \<not> P (hd xs) \<Longrightarrow> dropWhile P xs = xs"
  by (cases xs) simp_all

lemma trim_id:
  assumes "s \<noteq> []" "\<not> isSpace (hd s)" "\<not> isSpace (last s)"
  shows "trim s = s"
proof -
  have a: "dropWhile isSpace s = s"
    using assms(1,2) by (rule dropWhile_hd)
  have "rev s \<noteq> []" "\<not> isSpace (hd (rev s))"
    using assms(1,3) by (simp_all add: hd_rev)
  then have b: "dropWhile isSpace (rev s) = rev s"
    by (rule dropWhile_hd)
  show ?thesis
    by (simp add: trim_def a b)
qed

lemma digit_not_space: "isDigit c \<Longrightarrow> \<not> isSpace c"
  by (auto simp: isDigit_def isSpace_def)

lemma keep_not_letter:
  "keepChar c \<Longrightarrow> c \<notin> set ''xXoObB''"
  by (auto simp: keepChar_def isDigit_def)

lemma scanNonDecimal_keep: "\<forall>c\<in>set t. keepChar c \<Longrightarrow> scanNonDecimal t = None"
proof (cases t)
  case Nil
  then show ?thesis by (simp add: scanNonDecimal_def)
next
  case (Cons z r)
  assume k: "\<forall>c\<in>set t. keepChar c"
  show ?thesis
  proof (cases r)
    case Nil
    with Cons show ?thesis by (simp add: scanNonDecimal_def)
  next
    case (Cons x ds)
    with \<open>t = z # r\<close> k have "keepChar x" by simp
    then have "x \<notin> set ''xXoObB''" by (rule keep_not_letter)
    with Cons \<open>t = z # r\<close> show ?thesis
      by (simp add: scanNonDecimal_def)
  qed
qed

lemma not_digit_point: "\<not> isDigit (CHR ''.'')" "\<not> isDigit (CHR ''-'')" "\<not> isDigit (CHR ''+'')"
  "\<not> isDigit (CHR ''I'')"
  by (simp_all add: isDigit_def)

lemma scanUnsigned_fixed:
  assumes "ds \<noteq> []" "\<forall>c\<in>set ds. isDigit c" "\<forall>c\<in>set fs. isDigit c"
  shows "scanUnsigned (ds @ ''.'' @ fs)
         = Some (of_nat (digitsVal ds) + of_nat (digitsVal fs) / 10 ^ length fs, [])"
proof -
  have tw: "takeWhile isDigit (ds @ ''.'' @ fs) = ds"
    using assms(2) by (simp add: takeWhile_append2 not_digit_point)
  have dw: "dropWhile isDigit (ds @ ''.'' @ fs) = ''.'' @ fs"
    using assms(2) by (simp add: dropWhile_append2 not_digit_point)
  have tf: "takeWhile isDigit fs = fs" and df: "dropWhile isDigit fs = []"
    using assms(3) by simp_all
  show ?thesis
    unfolding scanUnsigned_def tw dw Let_def
    using assms(1) by (simp add: tf df scanExponent_def scale10_def)
qed

lemma not_Infinity:
  assumes "r \<noteq> []" "isDigit (hd r)"
  shows "take 8 r \<noteq> ''Infinity''"
proof
  assume "take 8 r = ''Infinity''"
  then have "hd (take 8 r) = CHR ''I''" by simp
  then have "hd r = CHR ''I''" using assms(1) by (cases r) simp_all
  with assms(2) show False by (simp add: not_digit_point)
qed

lemma scanDecimal_plain:
  assumes "r \<noteq> []" "hd r \<noteq> CHR ''+''" "hd r \<noteq> CHR ''-''" "take 8 r \<noteq> ''Infinity''"
    and "scanUnsigned r = Some (q, rest)"
  shows "scanDecimal r = Some (Fin q, rest)"
  using assms by (cases r) (simp_all add: scanDecimal_def Let_def del: take_Cons_numeral)

lemma scanDecimal_minus:
  assumes "take 8 r \<noteq> ''Infinity''" and "scanUnsigned r = Some (q, rest)"
  shows "scanDecimal (CHR ''-'' # r) = Some (numNeg (Fin q), rest)"
  using assms by (simp add: scanDecimal_def Let_def del: take_Cons_numeral)

lemma Number_fixed:
  assumes "ds \<noteq> []" "\<forall>c\<in>set ds. isDigit c" "fs \<noteq> []" "\<forall>c\<in>set fs. isDigit c"
  shows "Number (ds @ ''.'' @ fs)
           = Fin (of_nat (digitsVal ds) + of_nat (digitsVal fs) / 10 ^ length fs)"
    and "Number (''-'' @ ds @ ''.'' @ fs)
           = numNeg (Fin (of_nat (digitsVal ds) + of_nat (digitsVal fs) / 10 ^ length fs))"
proof -
  let ?r = "ds @ ''.'' @ fs"
  have hd: "isDigit (hd ?r)" and ne: "?r \<noteq> []"
    using assms(1,2) by (simp_all add: hd_append)
  have last: "isDigit (last ?r)"
    using assms(3,4) by simp
  have keep: "\<forall>c\<in>set ?r. keepChar c"
    using assms(2,4) by (auto simp: keepChar_def)
  have inf: "take 8 ?r \<noteq> ''Infinity''"
    using ne hd by (rule not_Infinity)
  have sgn: "hd ?r \<noteq> CHR ''+''" "hd ?r \<noteq> CHR ''-''"
    using hd not_digit_point by auto
  have sd: "scanDecimal ?r
      = Some (Fin (of_nat (digitsVal ds) + of_nat (digitsVal fs) / 10 ^ length fs), [])"
    using ne sgn inf scanUnsigned_fixed [OF assms(1,2,4)]
    by (rule scanDecimal_plain)
  have t1: "trim ?r = ?r"
    using ne hd last by (intro trim_id digit_not_space)
  show "Number ?r = Fin (of_nat (digitsVal ds) + of_nat (digitsVal fs) / 10 ^ length fs)"
    unfolding Number_def t1 Let_def using ne sd scanNonDecimal_keep [OF keep]
    by simp
  let ?m = "''-'' @ ?r"
  have keepm: "\<forall>c\<in>set ?m. keepChar c"
    using keep by (simp add: keepChar_def)
  have "last ?m = last ?r"
    using ne by simp
  then have "\<not> isSpace (last ?m)"
    using last digit_not_space by metis
  moreover have "\<not> isSpace (hd ?m)"
    by (simp add: isSpace_def)
  ultimately have t2: "trim ?m = ?m"
    by (intro trim_id) simp_all
  have sdm: "scanDecimal ?m
      = Some (numNeg (Fin (of_nat (digitsVal ds) + of_nat (digitsVal fs) / 10 ^ length fs)), [])"
    using scanDecimal_minus [OF inf scanUnsigned_fixed [OF assms(1,2,4)]]
    by simp
  show "Number ?m = numNeg (Fin (of_nat (digitsVal ds) + of_nat (digitsVal fs) / 10 ^ length fs))"
    unfolding Number_def t2 Let_def using sdm scanNonDecimal_keep [OF keepm]
    by simp
qed

lemma pad2_digits: "F < 100 \<Longrightarrow> c \<in> set (pad2 F) \<Longrightarrow> isDigit c"
  by (auto simp: pad2_def isDigit_digitChar)

lemma pad2_val: "F < 100 \<Longrightarrow> digitsVal (pad2 F) = F"
  by (simp add: pad2_def digitsVal_def digitVal_digitChar)

lemma pad2_length: "length (pad2 F) = 2"
  by (simp add: pad2_def)

lemma roundHalfUp_nat: "roundHalfUp (of_nat c) = c"
proof -
  have "\<lfloor>(of_nat c :: rat) + 1 / 2\<rfloor> = int c"
    by (rule floor_unique) simp_all
  then show ?thesis
    by (simp add: roundHalfUp_def)
qed

lemma cents_split:
  "(of_nat (c div 100) :: rat) + of_nat (c mod 100) / 10 ^ 2 = of_nat c / 100"
proof -
  have "(of_nat c :: rat) = of_nat (c div 100 * 100 + c mod 100)"
    by simp
  also have "\<dots> = of_nat (c div 100) * 100 + of_nat (c mod 100)"
    by (simp only: of_nat_add of_nat_mult of_nat_numeral)
  finally show ?thesis
    by (simp add: field_simps)
qed

text \<open>The text of a finite amount, from its cents.\<close>

lemma formatUSD_Fin:
  "formatUSD (Fin q) =
     (if q < 0 then ''-'' else []) @ ''$''
     @ group3 (showNat (roundHalfUp (\<bar>q\<bar> * 100) div 100))
     @ ''.'' @ pad2 (roundHalfUp (\<bar>q\<bar> * 100) mod 100)"
  by (simp add: formatUSD_def Let_def)

lemma usd_body_keep:
  "filter keepChar (''$'' @ group3 (showNat m) @ ''.'' @ pad2 (n mod 100))
   = showNat m @ ''.'' @ pad2 (n mod 100)"
proof -
  have d: "\<forall>c\<in>set (showNat m). isDigit c"
    using showNat_digits by blast
  have p: "filter keepChar (pad2 (n mod 100)) = pad2 (n mod 100)"
    by (rule filter_keep_digits) (auto simp: pad2_def isDigit_digitChar)
  have k: "keepChar (CHR ''.'')"
    by (simp add: keepChar_def)
  show ?thesis
    by (simp add: group3_filter [OF d] p not_keep_comma k)
qed

lemma formatUSD_keep:
  "filter keepChar (formatUSD (Fin q)) =
     (if q < 0 then ''-'' else [])
     @ showNat (roundHalfUp (\<bar>q\<bar> * 100) div 100)
     @ ''.'' @ pad2 (roundHalfUp (\<bar>q\<bar> * 100) mod 100)"
proof -
  define c where "c = roundHalfUp (\<bar>q\<bar> * 100)"
  define body where "body = ''$'' @ group3 (showNat (c div 100)) @ ''.'' @ pad2 (c mod 100)"
  have fmt: "formatUSD (Fin q) = (if q < 0 then ''-'' else []) @ body"
    by (simp add: formatUSD_Fin body_def c_def)
  have b: "filter keepChar body = showNat (c div 100) @ ''.'' @ pad2 (c mod 100)"
    unfolding body_def by (rule usd_body_keep)
  have m: "filter keepChar ''-'' = ''-''"
    by (simp add: keepChar_def)
  have "filter keepChar (formatUSD (Fin q))
      = (if q < 0 then ''-'' else []) @ showNat (c div 100) @ ''.'' @ pad2 (c mod 100)"
    unfolding fmt filter_append b using m by simp
  then show ?thesis
    by (simp only: c_def)
qed

lemma formatUSD_chars:
  "c \<in> set (formatUSD (Fin q)) \<Longrightarrow> isDigit c \<or> c \<in> set ''-$,.''"
proof -
  assume "c \<in> set (formatUSD (Fin q))"
  then have "c \<in> set ''-$.''
      \<or> c \<in> set (group3 (showNat (roundHalfUp (\<bar>q\<bar> * 100) div 100)))
      \<or> c \<in> set (pad2 (roundHalfUp (\<bar>q\<bar> * 100) mod 100))"
    by (auto simp: formatUSD_Fin split: if_splits)
  then show ?thesis
    using group3_set [of "showNat (roundHalfUp (\<bar>q\<bar> * 100) div 100)"]
      showNat_digits [of c] pad2_digits [of "roundHalfUp (\<bar>q\<bar> * 100) mod 100" c]
    by auto
qed

lemma formatUSD_dollar: "CHR ''$'' \<in> set (formatUSD n)"
  by (cases n) (simp_all add: formatUSD_def Let_def)

lemma formatUSD_trim: "trim (formatUSD n) \<noteq> []"
proof -
  have "\<not> isSpace (CHR ''$'')" by (simp add: isSpace_def)
  with formatUSD_dollar [of n] show ?thesis
    unfolding trim_Nil_iff by blast
qed

lemma formatUSD_no_paren:
  "\<not> includesChar (formatUSD (Fin q)) (CHR ''('')"
  using formatUSD_chars [of "CHR ''(''" q] by (auto simp: includesChar_def isDigit_def)

lemma parseCurrency_formatUSD:
  "parseCurrency (JStr (formatUSD (Fin q))) =
     Some (if q < 0 then numNeg (Fin (of_nat (roundHalfUp (\<bar>q\<bar> * 100)) / 100))
           else Fin (of_nat (roundHalfUp (\<bar>q\<bar> * 100)) / 100))"
proof -
  define c where "c = roundHalfUp (\<bar>q\<bar> * 100)"
  define ds where "ds = showNat (c div 100)"
  define fs where "fs = pad2 (c mod 100)"
  have ds: "ds \<noteq> []" "\<forall>c\<in>set ds. isDigit c"
    using showNat_not_Nil showNat_digits by (auto simp: ds_def)
  have fs: "fs \<noteq> []" "\<forall>c\<in>set fs. isDigit c"
    by (auto simp: fs_def pad2_def isDigit_digitChar)
  have val: "(of_nat (digitsVal ds) :: rat) + of_nat (digitsVal fs) / 10 ^ length fs = of_nat c / 100"
    using cents_split [of c] by (simp add: ds_def fs_def digitsVal_showNat pad2_val pad2_length)
  have keep: "filter keepChar (formatUSD (Fin q)) = (if q < 0 then ''-'' else []) @ ds @ ''.'' @ fs"
    by (simp add: formatUSD_keep ds_def fs_def c_def)
  have num: "Number (filter keepChar (formatUSD (Fin q)))
      = (if q < 0 then numNeg (Fin (of_nat c / 100)) else Fin (of_nat c / 100))"
    using Number_fixed [OF ds fs] by (simp add: keep val)
  have nn: "\<not> isNaN (Number (filter keepChar (formatUSD (Fin q))))"
    by (simp add: num isNaN_def numNeg_def)
  have short: "filter keepChar (formatUSD (Fin q)) \<noteq> []"
    "filter keepChar (formatUSD (Fin q)) \<noteq> ''.''"
    "filter keepChar (formatUSD (Fin q)) \<noteq> ''-''"
    using ds(1) fs(1) by (auto simp: keep append_eq_Cons_conv)
  show ?thesis
    using short nn formatUSD_no_paren [of q] formatUSD_trim [of "Fin q"]
    by (simp add: parseCurrency_def Let_def num c_def)
qed

lemma formatUSD_rounded:
  "formatUSD (if q < 0 then numNeg (Fin (of_nat (roundHalfUp (\<bar>q\<bar> * 100)) / 100))
              else Fin (of_nat (roundHalfUp (\<bar>q\<bar> * 100)) / 100))
   = formatUSD (Fin q)"
proof -
  define c where "c = roundHalfUp (\<bar>q\<bar> * 100)"
  define tail where
    "tail n = ''$'' @ group3 (showNat (n div 100)) @ ''.'' @ pad2 (n mod 100)" for n
  have fmt: "formatUSD (Fin x) = (if x < 0 then ''-'' else []) @ tail (roundHalfUp (\<bar>x\<bar> * 100))"
    for x
    by (simp add: formatUSD_Fin tail_def)
  have r: "roundHalfUp (\<bar>(of_nat c :: rat) / 100\<bar> * 100) = c"
    by (simp add: roundHalfUp_nat)
  have r': "roundHalfUp (\<bar>- ((of_nat c :: rat) / 100)\<bar> * 100) = c"
    by (simp add: roundHalfUp_nat)
  have q: "formatUSD (Fin q) = (if q < 0 then ''-'' else []) @ tail c"
    unfolding c_def by (rule fmt)
  show ?thesis
  proof (cases "q < 0")
    case False
    have "formatUSD (Fin (of_nat c / 100)) = tail c"
      unfolding fmt r by simp
    with False q show ?thesis
      by (simp add: c_def)
  next
    case True
    show ?thesis
    proof (cases "c = 0")
      case z: True
      have "tail 0 = ''$0.00''"
        by (simp add: tail_def showNat.simps [of 0] group3.simps [of "[x]" for x]
            pad2_def digitChar_def)
      with q True z have "formatUSD (Fin q) = ''-$0.00''"
        by simp
      moreover have "numNeg (Fin (of_nat c / 100)) = NegZero"
        using z by (simp add: numNeg_def)
      moreover have "formatUSD NegZero = ''-$0.00''"
        by (simp add: formatUSD_def)
      ultimately show ?thesis
        using True by (simp add: c_def)
    next
      case nz: False
      then have neg: "- ((of_nat c :: rat) / 100) < 0" by simp
      have "formatUSD (Fin (- ((of_nat c :: rat) / 100))) = ''-'' @ tail c"
        unfolding fmt r' using neg by simp
      moreover have "numNeg (Fin (of_nat c / 100)) = Fin (- ((of_nat c :: rat) / 100))"
        using nz by (simp add: numNeg_def)
      ultimately show ?thesis
        using True q by (simp add: c_def)
    qed
  qed
qed

lemma formatCurrency_formatUSD: "formatCurrency ns (JStr (formatUSD n)) = formatUSD n"
proof (cases n)
  case (Fin q)
  then show ?thesis
    by (simp add: formatCurrency_def parseCurrency_formatUSD formatUSD_rounded)
qed (simp_all add: num_eval chr_eval scan_eval fmt_eval)


lemma formatCurrency_fallback:
  "parseCurrency v = None \<Longrightarrow>
   formatCurrency ns v = (case v of JUndefined \<Rightarrow> [] | JNull \<Rightarrow> [] | _ \<Rightarrow> String ns v)"
  by (cases v) (simp_all add: formatCurrency_def orEmpty_def String_def)

lemma formatCurrency_string_fallback:
  "parseCurrency (JStr s) = None \<Longrightarrow> formatCurrency ns (JStr s) = s"
  by (simp add: formatCurrency_fallback String_def)

lemma formatCurrency_parsed:
  "parseCurrency v = Some n \<Longrightarrow> formatCurrency ns v = formatUSD n"
  by (simp add: formatCurrency_def)

lemma formatCurrency_twice_parsed:
  "parseCurrency v \<noteq> None \<Longrightarrow>
   formatCurrency ns (JStr (formatCurrency ns v)) = formatCurrency ns v"
  by (auto simp: formatCurrency_parsed formatCurrency_formatUSD)

lemma parse_empty: "parseCurrency (JStr []) = None"
  by (simp add: parseCurrency_def trim_def)

lemma parse_bool: "parseCurrency (JStr ''true'') = None" "parseCurrency (JStr ''false'') = None"
  by (simp_all add: parseCurrency_def chr_eval keepChar_def)

lemma formatCurrency_twice:
  assumes "\<forall>i. v \<noteq> JBigInt i" "\<forall>s. v \<noteq> JObject s"
  shows "formatCurrency ns (JStr (formatCurrency ns v)) = formatCurrency ns v"
proof (cases v)
  case JUndefined
  then show ?thesis
    by (simp add: formatCurrency_def parseCurrency_def orEmpty_def String_def trim_def)
next
  case JNull
  then show ?thesis
    by (simp add: formatCurrency_def parseCurrency_def orEmpty_def String_def trim_def)
next
  case (JBool b)
  have "parseCurrency v = None"
    using JBool by (simp add: parseCurrency_def)
  then have "formatCurrency ns v = (if b then ''true'' else ''false'')"
    using JBool by (simp add: formatCurrency_fallback String_def)
  then show ?thesis
    using parse_bool by (simp add: formatCurrency_string_fallback)
next
  case (JNum n)
  then show ?thesis
    by (simp add: formatCurrency_twice_parsed parseCurrency_def)
next
  case (JStr s)
  show ?thesis
  proof (cases "parseCurrency v")
    case None
    then show ?thesis
      using JStr by (simp add: formatCurrency_string_fallback)
  next
    case (Some n)
    then show ?thesis
      by (simp add: formatCurrency_twice_parsed)
  qed
next
  case (JBigInt i)
  with assms show ?thesis by simp
next
  case (JObject s)
  with assms show ?thesis by simp
qed

section \<open>formatCurrency: fallback and format\<close>




section \<open>formatCurrency applied twice\<close>

text \<open>
  Claim C10, as stated, fails: a value that is neither a number nor a string is coerced
  to a string on the first application, and that string may parse on the second. The big
  integer \<open>5n\<close> gives \<open>5\<close>, and \<open>5\<close> gives \<open>$5.00\<close>.
\<close>

theorem formatCurrency_bigint_counterexample:
  "formatCurrency (\<lambda>q. []) (JBigInt 5) = ''5''
   \<and> formatCurrency (\<lambda>q. []) (JStr (formatCurrency (\<lambda>q. []) (JBigInt 5))) = ''$5.00''"
  by (simp add: num_eval chr_eval scan_eval fmt_eval)

text \<open>
  Claim C10, amended. For every input that is a number, a string, a boolean, \<open>null\<close> or
  \<open>undefined\<close>, and for every other input that \<open>parseCurrency\<close> parses, formatting the
  result of \<open>formatCurrency\<close> again gives the same string. The text of a finite amount is
  parsed back to that amount rounded to cents, with its sign, and this number is
  formatted to the same text; a string that does not parse is returned as it is, and so
  again on the second application.
\<close>

theorem formatCurrency_idempotent:
  "((\<forall>i. v \<noteq> JBigInt i) \<and> (\<forall>s. v \<noteq> JObject s) \<longrightarrow>
      formatCurrency ns (JStr (formatCurrency ns v)) = formatCurrency ns v)
   \<and> (parseCurrency v \<noteq> None \<longrightarrow>
        formatCurrency ns (JStr (formatCurrency ns v)) = formatCurrency ns v)
   \<and> parseCurrency (JStr (formatUSD (Fin q))) =
        Some (if q < 0 then numNeg (Fin (of_nat (roundHalfUp (\<bar>q\<bar> * 100)) / 100))
              else Fin (of_nat (roundHalfUp (\<bar>q\<bar> * 100)) / 100))
   \<and> formatUSD (if q < 0 then numNeg (Fin (of_nat (roundHalfUp (\<bar>q\<bar> * 100)) / 100))
                 else Fin (of_nat (roundHalfUp (\<bar>q\<bar> * 100)) / 100))
        = formatUSD (Fin q)
   \<and> (parseCurrency (JStr s) = None \<longrightarrow> formatCurrency ns (JStr s) = s)
   \<and> parseCurrency (JStr ''$1,234.56'') = Some (Fin (123456 / 100))
   \<and> formatCurrency ns (JStr ''$1,234.56'') = ''$1,234.56''
   \<and> parseCurrency (JStr ''-$1,234.56'') = Some (Fin (- (123456 / 100)))
   \<and> formatCurrency ns (JStr ''-$1,234.56'') = ''-$1,234.56''"
proof -
  have a: "(\<forall>i. v \<noteq> JBigInt i) \<and> (\<forall>s. v \<noteq> JObject s) \<longrightarrow>
      formatCurrency ns (JStr (formatCurrency ns v)) = formatCurrency ns v"
    using formatCurrency_twice by blast
  have b: "parseCurrency v \<noteq> None \<longrightarrow>
        formatCurrency ns (JStr (formatCurrency ns v)) = formatCurrency ns v"
    using formatCurrency_twice_parsed by blast
  have c: "parseCurrency (JStr s) = None \<longrightarrow> formatCurrency ns (JStr s) = s"
    using formatCurrency_string_fallback by blast
  have e1: "parseCurrency (JStr ''$1,234.56'') = Some (Fin (123456 / 100))"
    and e3: "parseCurrency (JStr ''-$1,234.56'') = Some (Fin (- (123456 / 100)))"
    by (simp_all add: num_eval chr_eval scan_eval parseCurrency_def keepChar_def)
  have e2: "formatCurrency ns (JStr ''$1,234.56'') = ''$1,234.56''"
    and e4: "formatCurrency ns (JStr ''-$1,234.56'') = ''-$1,234.56''"
    by (simp_all add: formatCurrency_def e1 e3) (simp_all add: num_eval fmt_eval)
  from a b parseCurrency_formatUSD [of q] formatUSD_rounded [of q] c e1 e2 e3 e4
  show ?thesis
    by (intro conjI)
qed

theorem formatCurrency_idempotent_witness:
  "(\<forall>i. JStr ''(1,234.5)'' \<noteq> JBigInt i) \<and> (\<forall>s. JStr ''(1,234.5)'' \<noteq> JObject s)
   \<and> parseCurrency (JStr ''(1,234.5)'') \<noteq> None
   \<and> formatCurrency (\<lambda>q. []) (JStr ''(1,234.5)'') = ''-$1,234.50''
   \<and> formatCurrency (\<lambda>q. []) (JStr (formatCurrency (\<lambda>q. []) (JStr ''(1,234.5)'')))
       = ''-$1,234.50''
   \<and> parseCurrency (JStr ''n/a'') = None
   \<and> formatCurrency (\<lambda>q. []) (JStr ''n/a'') = ''n/a''"
proof -
  have p: "parseCurrency (JStr ''(1,234.5)'') = Some (Fin (- (2469 / 2)))"
    by (simp add: num_eval chr_eval scan_eval parseCurrency_def keepChar_def)
  have f: "formatCurrency (\<lambda>q. []) (JStr ''(1,234.5)'') = ''-$1,234.50''"
    by (simp add: formatCurrency_def p) (simp add: num_eval fmt_eval)
  have n: "parseCurrency (JStr ''n/a'') = None"
    by (simp add: chr_eval parseCurrency_def keepChar_def)
  have t: "formatCurrency (\<lambda>q. []) (JStr (formatCurrency (\<lambda>q. []) (JStr ''(1,234.5)'')))
       = formatCurrency (\<lambda>q. []) (JStr ''(1,234.5)'')"
    using formatCurrency_idempotent [of "JStr ''(1,234.5)''" "\<lambda>q. []"] by simp
  have u: "formatCurrency (\<lambda>q. []) (JStr ''n/a'') = ''n/a''"
    using formatCurrency_idempotent [of _ "\<lambda>q. []" _ "''n/a''"] n by simp
  from p f n t u show ?thesis
    by simp
qed

end
